theory Spec2Isabelle
  imports Complex_Main
begin

section \<open>Values shared by the services\<close>

text \<open>
  The services exchange Python dictionaries with fixed keys; each dictionary shape is a
  record whose fields carry the keys' names, and a key that only some return statements
  set is an \<open>option\<close> field (\<open>None\<close> when the key is absent). Python floats are read
  as reals: rounding, infinities and NaN are outside the model, except where the code
  itself divides by a zero norm (see \<open>compare_faces\<close>).
\<close>

type_synonym path = string

datatype py_exception = ValueError string | ZeroDivisionError | LibraryError string

text \<open>\<open>str(e)\<close> of a caught exception.\<close>

fun str_of_exception :: "py_exception \<Rightarrow> string" where
  "str_of_exception (ValueError msg) = msg"
| "str_of_exception ZeroDivisionError = ''division by zero''"
| "str_of_exception (LibraryError msg) = msg"

text \<open>The two thresholds that \<open>_aggregate_results\<close> reads from \<open>app.core.config.settings\<close>.\<close>

record settings =
  FACE_MODEL_THRESHOLD :: real
  LIVENESS_CONFIDENCE_THRESHOLD :: real

definition default_settings :: settings where
  "default_settings = \<lparr>FACE_MODEL_THRESHOLD = 0.6, LIVENESS_CONFIDENCE_THRESHOLD = 0.9\<rparr>"

section \<open>verification\_service: the three result dictionaries and the decision\<close>

text \<open>The dictionary returned by \<open>VerificationService._process_document\<close>.\<close>

record document_result =
  document_valid :: bool
  document_type :: string
  extracted_data :: "string \<rightharpoonup> string"
  confidence :: real
  error :: "string option"

text \<open>The dictionary returned by \<open>VerificationService._process_face_verification\<close>.\<close>

record face_result =
  face_detected :: bool
  face_match_score :: real
  confidence :: real
  error :: "string option"
  document_face_confidence :: "real option"
  selfie_face_confidence :: "real option"

text \<open>
  The dictionary returned by \<open>VerificationService._process_liveness_detection\<close>; the
  key \<open>method\<close> is the field \<open>liveness_method\<close>.
\<close>

record liveness_result =
  liveness_detected :: bool
  liveness_score :: real
  liveness_method :: string
  confidence :: real
  indicators :: "(string \<rightharpoonup> real) option"
  error :: "string option"

text \<open>
  The dictionary returned by \<open>process_verification\<close> and \<open>_aggregate_results\<close>: the
  completed shape sets the decision fields, the failed shape sets \<open>error\<close> instead.
\<close>

record verification_result =
  status :: string
  decision :: string
  decision_reason :: "string option"
  document_valid :: "bool option"
  face_match_score :: "real option"
  liveness_score :: "real option"
  processing_time :: "real option"
  error :: "string option"

text \<open>
  \<open>VerificationService._aggregate_results\<close>. The three arguments are built by the
  \<open>_process_*\<close> wrappers, which set every key read here, so the defaults of the
  \<open>.get\<close> calls never apply; on booleans and floats no statement of the body raises,
  so its \<open>except\<close> branch is not taken.
\<close>

definition aggregate_results ::
  "settings \<Rightarrow> document_result \<Rightarrow> face_result \<Rightarrow> liveness_result \<Rightarrow> verification_result" where
  "aggregate_results cfg document_res face_res liveness_res =
    (let doc_valid = document_result.document_valid document_res;
         doc_confidence = document_result.confidence document_res;
         face_detected = face_result.face_detected face_res;
         face_score = face_result.face_match_score face_res;
         liveness_passed = liveness_result.liveness_detected liveness_res;
         liveness_score = liveness_result.liveness_score liveness_res;
         face_threshold = FACE_MODEL_THRESHOLD cfg;
         liveness_threshold = LIVENESS_CONFIDENCE_THRESHOLD cfg;
         (decision, reason) =
           (if \<not> doc_valid then (''rejected'', ''Invalid document'')
            else if \<not> face_detected then (''rejected'', ''No face detected'')
            else if \<not> liveness_passed then (''rejected'', ''Liveness detection failed'')
            else if face_score < face_threshold then (''rejected'', ''Face match insufficient'')
            else if face_score \<ge> 0.8 \<and> liveness_score \<ge> liveness_threshold
                    \<and> doc_confidence \<ge> 0.7
              then (''verified'', ''All checks passed'')
            else (''manual_review'', ''Requires manual review''))
     in \<lparr>status = ''completed'',
         decision = decision,
         decision_reason = Some reason,
         verification_result.document_valid = Some doc_valid,
         verification_result.face_match_score = Some face_score,
         verification_result.liveness_score = Some liveness_score,
         processing_time = Some 2.5,
         verification_result.error = None\<rparr>)"

section \<open>face\_service\<close>

text \<open>
  The dictionary returned by \<open>extract_face_from_document\<close> and
  \<open>extract_face_from_selfie\<close> (the keys \<open>bbox\<close> and \<open>frame_count\<close> are read by no
  caller and are left out). \<open>embedding = None\<close> is Python's \<open>None\<close>.
\<close>

record face_extraction =
  face_detected :: bool
  confidence :: real
  embedding :: "real list option"
  error :: "string option"

text \<open>\<open>np.linalg.norm\<close>, \<open>np.dot\<close> and \<open>np.mean\<close> on one-dimensional arrays.\<close>

definition linalg_norm :: "real list \<Rightarrow> real" where
  "linalg_norm v = sqrt (sum_list (map (\<lambda>x. x * x) v))"

definition np_dot :: "real list \<Rightarrow> real list \<Rightarrow> real" where
  "np_dot u v = sum_list (map2 (*) u v)"

definition np_mean :: "real list \<Rightarrow> real" where
  "np_mean xs = sum_list xs / real (length xs)"

text \<open>
  \<open>FaceService.compare_faces\<close>. \<open>not embedding\<close> holds for \<open>None\<close> and for the empty
  list. numpy does not raise on a division by a zero norm: every component becomes NaN,
  so does the dot product, and \<open>max(0.0, min(1.0, nan))\<close> is \<open>1.0\<close>, because Python's
  \<open>min\<close> and \<open>max\<close> keep their first argument unless the second compares smaller
  (larger), and every comparison with NaN is false. That path is the branch
  \<open>n1 = 0 \<or> n2 = 0\<close> below.
\<close>

definition compare_faces :: "real list option \<Rightarrow> real list option \<Rightarrow> real" where
  "compare_faces embedding1 embedding2 =
    (case embedding1 of
       None \<Rightarrow> 0.0
     | Some emb1 \<Rightarrow>
        (case embedding2 of
           None \<Rightarrow> 0.0
         | Some emb2 \<Rightarrow>
            if emb1 = [] \<or> emb2 = [] \<or> length emb1 \<noteq> length emb2 then 0.0
            else
              let n1 = linalg_norm emb1; n2 = linalg_norm emb2 in
              if n1 = 0 \<or> n2 = 0 then 1.0
              else
                let emb1_norm = map (\<lambda>x. x / n1) emb1;
                    emb2_norm = map (\<lambda>x. x / n2) emb2;
                    similarity = np_dot emb1_norm emb2_norm
                in max 0.0 (min 1.0 similarity)))"

text \<open>The cosine of the angle between two vectors, as the specification names it.\<close>

definition cosine_similarity :: "real list \<Rightarrow> real list \<Rightarrow> real" where
  "cosine_similarity u v = (\<Sum>(x, y)\<leftarrow>zip u v. x * y) / (linalg_norm u * linalg_norm v)"

section \<open>document\_service\<close>

text \<open>
  The regular expressions of the parsers and of the validator, by the field they look
  for; the flag \<open>re.IGNORECASE\<close> belongs to the pattern.
  \<^item> \<open>PASSPORT_NUMBER\<close>: an upper-case letter and eight digits, as a group;
  \<^item> \<open>SURNAME\<close>, \<open>GIVEN_NAMES\<close>: the label, optional blanks, the rest of the line as a group;
  \<^item> \<open>DATE\<close>: day, three-letter month and year, as a group;
  \<^item> \<open>ID_NUMBER\<close>, \<open>NAME\<close>, \<open>DOB\<close>: the patterns of \<open>_parse_id_card_data\<close>;
  \<^item> \<open>PASSPORT_FORMAT\<close>: the anchored pattern of \<open>_validate_document_data\<close>.
\<close>

datatype regex =
  PASSPORT_NUMBER | SURNAME | GIVEN_NAMES | DATE | ID_NUMBER | NAME | DOB | PASSPORT_FORMAT

record region =
  width :: nat
  height :: nat
  aspect_ratio :: real

text \<open>The dictionary returned by \<open>DocumentService.process_document\<close>.\<close>

record document_info =
  document_type :: string
  document_valid :: bool
  confidence :: real
  extracted_data :: "string \<rightharpoonup> string"
  raw_text :: "string option"
  region :: "region option"
  error :: "string option"

text \<open>An uploaded file (\<open>UploadFile\<close>): its name; the content is only copied to disk.\<close>

record upload =
  filename :: string

text \<open>
  What the services call outside this repository: OpenCV, the \<open>re\<close> module, the face
  models and the file system. A call that can raise returns a sum, \<open>Inl\<close> the exception.
  \<^item> \<open>imread\<close>: \<open>cv2.imread\<close>, \<open>None\<close> for an unreadable file;
  \<^item> \<open>preprocess_image\<close>: the four OpenCV calls of \<open>_preprocess_image\<close>;
  \<^item> \<open>image_shape\<close>: \<open>image.shape[:2]\<close>, height first;
  \<^item> \<open>re_search\<close>: \<open>re.search(pattern, line)\<close>, the text of group 1 of the first match;
  \<^item> \<open>re_match\<close>: whether \<open>re.match(pattern, s)\<close> matches;
  \<^item> \<open>extract_face_from_document\<close>, \<open>extract_face_from_selfie\<close>: the two extractors of the
    face service, which catch every exception and return their dictionary;
  \<^item> \<open>VideoCapture\<close>: the frames that successive \<open>cap.read()\<close> calls return before the
    first failed read, \<open>None\<close> when \<open>cap.isOpened()\<close> is false;
  \<^item> \<open>cvtColor\<close>: \<open>cv2.cvtColor(frame, cv2.COLOR_BGR2GRAY)\<close>;
  \<^item> \<open>flow_magnitude\<close>: \<open>np.mean\<close> of the magnitude of the Farneback optical flow between
    two grey frames;
  \<^item> \<open>laplacian_var\<close>: \<open>cv2.Laplacian(gray, cv2.CV_64F).var()\<close>;
  \<^item> \<open>mkdir\<close>: \<open>session_dir.mkdir(exist_ok=True)\<close>;
  \<^item> \<open>write_upload\<close>: the \<open>with open(path, "wb")\<close> block that reads an upload and writes it.
\<close>

record ('img, 'frame, 'gray) externals =
  imread :: "path \<Rightarrow> 'img option"
  preprocess_image :: "'img \<Rightarrow> py_exception + 'img"
  image_shape :: "'img \<Rightarrow> nat \<times> nat"
  re_search :: "regex \<Rightarrow> string \<Rightarrow> string option"
  re_match :: "regex \<Rightarrow> string \<Rightarrow> bool"
  extract_face_from_document :: "path \<Rightarrow> face_extraction"
  extract_face_from_selfie :: "path \<Rightarrow> face_extraction"
  VideoCapture :: "path \<Rightarrow> 'frame list option"
  cvtColor :: "'frame \<Rightarrow> py_exception + 'gray"
  flow_magnitude :: "'gray \<Rightarrow> 'gray \<Rightarrow> py_exception + real"
  laplacian_var :: "'gray \<Rightarrow> py_exception + real"
  mkdir :: "path \<Rightarrow> py_exception + unit"
  write_upload :: "path \<Rightarrow> upload \<Rightarrow> py_exception + unit"

subsection \<open>Python string operations (on ASCII text)\<close>

definition isspace :: "char \<Rightarrow> bool" where
  "isspace c = (let n = (of_char c :: nat) in n = 32 \<or> (9 \<le> n \<and> n \<le> 13) \<or> (28 \<le> n \<and> n \<le> 31))"

definition strip :: "string \<Rightarrow> string" where
  "strip s = rev (dropWhile isspace (rev (dropWhile isspace s)))"

definition upper :: "string \<Rightarrow> string" where
  "upper s = map (\<lambda>c. let n = (of_char c :: nat) in
                        if 97 \<le> n \<and> n \<le> 122 then char_of (n - 32) else c) s"

text \<open>\<open>s.split('\n')\<close>.\<close>

fun split_lines :: "string \<Rightarrow> string list" where
  "split_lines [] = [[]]"
| "split_lines (c # cs) =
     (if c = CHR 0x0A then [] # split_lines cs
      else (case split_lines cs of [] \<Rightarrow> [[c]] | l # ls \<Rightarrow> (c # l) # ls))"

text \<open>\<open>sub in s\<close> on strings.\<close>

fun py_in :: "string \<Rightarrow> string \<Rightarrow> bool" where
  "py_in sub [] = (sub = [])"
| "py_in sub (c # cs) = (take (length sub) (c # cs) = sub \<or> py_in sub cs)"

subsection \<open>Type detection, OCR placeholder, parsing and validation\<close>

text \<open>
  \<open>_detect_document_type\<close>: \<open>width / height\<close> is Python's true division of two
  integers, which raises \<open>ZeroDivisionError\<close> for a zero height. The branches are tried in
  the order of the source.
\<close>

definition detect_document_type ::
  "('img, 'frame, 'gray) externals \<Rightarrow> 'img \<Rightarrow> py_exception + (string \<times> region)" where
  "detect_document_type ext img =
    (let (height, width) = image_shape ext img in
     if height = 0 then Inl ZeroDivisionError
     else
       let aspect_ratio = real width / real height;
           doc_region = \<lparr>width = width, height = height, aspect_ratio = aspect_ratio\<rparr>
       in if 1.4 \<le> aspect_ratio \<and> aspect_ratio \<le> 1.7 then Inr (''passport'', doc_region)
          else if 0.6 \<le> aspect_ratio \<and> aspect_ratio \<le> 0.8 then Inr (''national_id'', doc_region)
          else if 1.5 \<le> aspect_ratio \<and> aspect_ratio \<le> 1.8 then Inr (''drivers_license'', doc_region)
          else Inr (''unknown'', doc_region))"

text \<open>
  \<open>_extract_text_with_ocr\<close> returns a fixed sample text, whatever the image: a line
  break, the lines below indented by twelve blanks (the third one empty), and a last
  line of twelve blanks.
\<close>

definition sample_lines :: "string list" where
  "sample_lines =
    [''UNITED STATES OF AMERICA'', ''PASSPORT'', [], ''TYPE: P'', ''CODE: USA'',
     ''PASSPORT NO: P123456789'', ''SURNAME: DOE'', ''GIVEN NAMES: JOHN MICHAEL'',
     ''NATIONALITY: UNITED STATES OF AMERICA'', ''DATE OF BIRTH: 15 JAN 1990'', ''SEX: M'',
     ''PLACE OF BIRTH: NEW YORK'', ''DATE OF ISSUE: 01 JAN 2020'',
     ''DATE OF EXPIRATION: 01 JAN 2030'', ''AUTHORITY: DEPARTMENT OF STATE'',
     ''ENDORSEMENTS: NONE'']"

definition extract_text_with_ocr :: "'img \<Rightarrow> string" where
  "extract_text_with_ocr img =
    concat (map (\<lambda>l. CHR 0x0A # (if l = [] then [] else replicate 12 CHR '' '' @ l)) sample_lines)
      @ CHR 0x0A # replicate 12 CHR '' ''"

text \<open>The body of the loop of \<open>_parse_passport_data\<close>: one \<open>if/elif\<close> chain per line.\<close>

definition passport_line ::
  "('img, 'frame, 'gray) externals \<Rightarrow> string \<Rightarrow> (string \<rightharpoonup> string) \<Rightarrow> (string \<rightharpoonup> string)" where
  "passport_line ext raw_line data =
    (let line = upper (strip raw_line) in
     if py_in ''PASSPORT NO:'' line \<or> py_in ''PASS NO:'' line then
       (case re_search ext PASSPORT_NUMBER line of
          Some g \<Rightarrow> data(''passport_number'' \<mapsto> g) | None \<Rightarrow> data)
     else if py_in ''SURNAME:'' line then
       (case re_search ext SURNAME line of
          Some g \<Rightarrow> data(''surname'' \<mapsto> strip g) | None \<Rightarrow> data)
     else if py_in ''GIVEN NAMES:'' line then
       (case re_search ext GIVEN_NAMES line of
          Some g \<Rightarrow> data(''given_names'' \<mapsto> strip g) | None \<Rightarrow> data)
     else if py_in ''DATE OF BIRTH:'' line \<or> py_in ''DOB:'' line then
       (case re_search ext DATE line of
          Some g \<Rightarrow> data(''date_of_birth'' \<mapsto> g) | None \<Rightarrow> data)
     else if py_in ''DATE OF EXPIRATION:'' line \<or> py_in ''EXP:'' line then
       (case re_search ext DATE line of
          Some g \<Rightarrow> data(''expiration_date'' \<mapsto> g) | None \<Rightarrow> data)
     else data)"

definition parse_passport_data ::
  "('img, 'frame, 'gray) externals \<Rightarrow> string \<Rightarrow> (string \<rightharpoonup> string)" where
  "parse_passport_data ext text =
    (let lines = split_lines (strip text);
         data = fold (passport_line ext) lines Map.empty
     in case (data ''surname'', data ''given_names'') of
          (Some surname, Some given_names) \<Rightarrow>
             data(''full_name'' \<mapsto> given_names @ '' '' @ surname)
        | _ \<Rightarrow> data)"

text \<open>The body of the loop of \<open>_parse_id_card_data\<close>: three independent \<open>if\<close>s per line.\<close>

definition id_card_line ::
  "('img, 'frame, 'gray) externals \<Rightarrow> string \<Rightarrow> (string \<rightharpoonup> string) \<Rightarrow> (string \<rightharpoonup> string)" where
  "id_card_line ext raw_line data =
    (let line = strip raw_line;
         data1 = (case re_search ext ID_NUMBER line of
                    Some g \<Rightarrow> if data ''id_number'' = None then data(''id_number'' \<mapsto> g) else data
                  | None \<Rightarrow> data);
         data2 = (case re_search ext NAME line of
                    Some g \<Rightarrow> data1(''full_name'' \<mapsto> strip g) | None \<Rightarrow> data1)
     in case re_search ext DOB line of
          Some g \<Rightarrow> data2(''date_of_birth'' \<mapsto> strip g) | None \<Rightarrow> data2)"

definition parse_id_card_data ::
  "('img, 'frame, 'gray) externals \<Rightarrow> string \<Rightarrow> (string \<rightharpoonup> string)" where
  "parse_id_card_data ext text = fold (id_card_line ext) (split_lines (strip text)) Map.empty"

text \<open>
  \<open>_parse_document_data\<close>; neither parser raises, so its \<open>except\<close> branch is not taken.
\<close>

definition parse_document_data ::
  "('img, 'frame, 'gray) externals \<Rightarrow> string \<Rightarrow> string \<Rightarrow> (string \<rightharpoonup> string)" where
  "parse_document_data ext text doc_type =
    (if doc_type = ''passport'' then parse_passport_data ext text
     else if doc_type \<in> set [''national_id'', ''drivers_license''] then parse_id_card_data ext text
     else Map.empty)"

text \<open>\<open>field in data and data[field]\<close>: the key is there and its string is not empty.\<close>

definition field_present :: "(string \<rightharpoonup> string) \<Rightarrow> string \<Rightarrow> bool" where
  "field_present data field = (case data field of None \<Rightarrow> False | Some v \<Rightarrow> v \<noteq> [])"

definition required_fields_of :: "string \<Rightarrow> string list" where
  "required_fields_of doc_type =
    (if doc_type = ''passport'' then [''passport_number'', ''full_name'', ''date_of_birth'']
     else if doc_type \<in> set [''national_id'', ''drivers_license'']
       then [''id_number'', ''full_name'', ''date_of_birth'']
     else [])"

text \<open>\<open>_validate_document_data\<close>, returning \<open>(is_valid, confidence)\<close>.\<close>

definition validate_document_data ::
  "('img, 'frame, 'gray) externals \<Rightarrow> (string \<rightharpoonup> string) \<Rightarrow> string \<Rightarrow> bool \<times> real" where
  "validate_document_data ext data doc_type =
    (let required_fields = required_fields_of doc_type;
         present_fields = length (filter (field_present data) required_fields);
         field_completeness =
           (if required_fields \<noteq> [] then real present_fields / real (length required_fields)
            else 0);
         format_score0 =
           (case data ''passport_number'' of
              Some v \<Rightarrow> if re_match ext PASSPORT_FORMAT v then 0 + 0.3 else 0
            | None \<Rightarrow> 0);
         format_score =
           (case data ''id_number'' of
              Some v \<Rightarrow> if length v \<ge> 6 then format_score0 + 0.3 else format_score0
            | None \<Rightarrow> format_score0);
         confidence = (field_completeness * 0.7) + (format_score * 0.3);
         is_valid = (confidence \<ge> 0.5)
     in (is_valid, confidence))"

text \<open>
  \<open>DocumentService.process_document\<close>: the \<open>try\<close> body, then the \<open>except\<close> branch that
  turns every exception of the body into the failure dictionary.
\<close>

definition process_document_body ::
  "('img, 'frame, 'gray) externals \<Rightarrow> path \<Rightarrow> py_exception + document_info" where
  "process_document_body ext image_path =
    (case imread ext image_path of
       None \<Rightarrow> Inl (ValueError (''Could not read image: '' @ image_path))
     | Some img \<Rightarrow>
        (case preprocess_image ext img of
           Inl e \<Rightarrow> Inl e
         | Inr processed_image \<Rightarrow>
            (case detect_document_type ext processed_image of
               Inl e \<Rightarrow> Inl e
             | Inr (doc_type, doc_region) \<Rightarrow>
                let extracted_text = extract_text_with_ocr processed_image;
                    parsed_data = parse_document_data ext extracted_text doc_type;
                    (is_valid, confidence) = validate_document_data ext parsed_data doc_type
                in Inr \<lparr>document_type = doc_type,
                         document_valid = is_valid,
                         confidence = confidence,
                         extracted_data = parsed_data,
                         raw_text = Some extracted_text,
                         region = Some doc_region,
                         error = None\<rparr>)))"

definition process_document ::
  "('img, 'frame, 'gray) externals \<Rightarrow> path \<Rightarrow> document_info" where
  "process_document ext image_path =
    (case process_document_body ext image_path of
       Inr result \<Rightarrow> result
     | Inl e \<Rightarrow> \<lparr>document_type = ''unknown'',
                  document_valid = False,
                  confidence = 0.0,
                  extracted_data = Map.empty,
                  raw_text = None,
                  region = None,
                  error = Some (str_of_exception e)\<rparr>)"

section \<open>liveness\_service\<close>

text \<open>
  The dictionary returned by \<open>LivenessService._passive_liveness_detection\<close>; the key
  \<open>method\<close> is the field \<open>liveness_method\<close>.
\<close>

record liveness_info =
  liveness_detected :: bool
  liveness_score :: real
  confidence :: real
  liveness_method :: string
  reason :: "string option"
  indicators :: "(string \<rightharpoonup> real) option"
  error :: "string option"

text \<open>
  The reading loop of \<open>_passive_liveness_detection\<close>: \<open>frame_count\<close> counts the frames
  read, \<open>stream\<close> holds the frames that \<open>cap.read()\<close> still has, \<open>frames\<close> the frames
  kept so far. The loop ends at \<open>max_frames = 50\<close> or at the first failed read.
\<close>

fun read_frames :: "nat \<Rightarrow> 'frame list \<Rightarrow> 'frame list \<Rightarrow> 'frame list" where
  "read_frames frame_count [] frames = frames"
| "read_frames frame_count (frame # stream) frames =
     (if frame_count < 50
      then read_frames (frame_count + 1) stream
             (if frame_count mod 2 = 0 then frames @ [frame] else frames)
      else frames)"

text \<open>The list comprehension of \<open>_analyze_motion\<close>; the first exception ends it.\<close>

fun gray_frames ::
  "('img, 'frame, 'gray) externals \<Rightarrow> 'frame list \<Rightarrow> py_exception + 'gray list" where
  "gray_frames ext [] = Inr []"
| "gray_frames ext (frame # frames) =
     (case cvtColor ext frame of
        Inl e \<Rightarrow> Inl e
      | Inr g \<Rightarrow> (case gray_frames ext frames of Inl e \<Rightarrow> Inl e | Inr gs \<Rightarrow> Inr (g # gs)))"

text \<open>
  The loop of \<open>_analyze_motion\<close> over consecutive grey frames, collecting
  \<open>min(motion_score / 10.0, 1.0)\<close>.
\<close>

fun motion_scores ::
  "('img, 'frame, 'gray) externals \<Rightarrow> 'gray list \<Rightarrow> py_exception + real list" where
  "motion_scores ext (g1 # g2 # gs) =
     (case flow_magnitude ext g1 g2 of
        Inl e \<Rightarrow> Inl e
      | Inr motion_score \<Rightarrow>
         (case motion_scores ext (g2 # gs) of
            Inl e \<Rightarrow> Inl e
          | Inr scores \<Rightarrow> Inr (min (motion_score / 10.0) 1.0 # scores)))"
| "motion_scores ext gs = Inr []"

definition analyze_motion :: "('img, 'frame, 'gray) externals \<Rightarrow> 'frame list \<Rightarrow> real" where
  "analyze_motion ext frames =
    (if length frames < 2 then 0.0
     else
       (case gray_frames ext frames of
          Inl e \<Rightarrow> 0.5
        | Inr grays \<Rightarrow>
           (case motion_scores ext grays of
              Inl e \<Rightarrow> 0.5
            | Inr scores \<Rightarrow>
               let avg_motion = np_mean scores in
               if 0.1 \<le> avg_motion \<and> avg_motion \<le> 0.8 then avg_motion
               else if avg_motion < 0.1 then avg_motion * 2
               else 0.5)))"

text \<open>
  The per-frame loop shared by \<open>_analyze_texture\<close> (divisor 500) and \<open>_analyze_blur\<close>
  (divisor 100): grey conversion, variance of the Laplacian, \<open>min(var / divisor, 1.0)\<close>.
\<close>

fun laplacian_scores ::
  "('img, 'frame, 'gray) externals \<Rightarrow> real \<Rightarrow> 'frame list \<Rightarrow> py_exception + real list" where
  "laplacian_scores ext divisor [] = Inr []"
| "laplacian_scores ext divisor (frame # frames) =
     (case cvtColor ext frame of
        Inl e \<Rightarrow> Inl e
      | Inr g \<Rightarrow>
         (case laplacian_var ext g of
            Inl e \<Rightarrow> Inl e
          | Inr v \<Rightarrow>
             (case laplacian_scores ext divisor frames of
                Inl e \<Rightarrow> Inl e
              | Inr scores \<Rightarrow> Inr (min (v / divisor) 1.0 # scores))))"

definition analyze_texture :: "('img, 'frame, 'gray) externals \<Rightarrow> 'frame list \<Rightarrow> real" where
  "analyze_texture ext frames =
    (if length frames < 3 then 0.0
     else
       (case laplacian_scores ext 500.0 frames of
          Inl e \<Rightarrow> 0.5
        | Inr texture_scores \<Rightarrow> max (np_mean texture_scores) 0.3))"

definition analyze_blur :: "('img, 'frame, 'gray) externals \<Rightarrow> 'frame list \<Rightarrow> real" where
  "analyze_blur ext frames =
    (if length frames < 1 then 0.0
     else
       (case laplacian_scores ext 100.0 frames of
          Inl e \<Rightarrow> 0.5
        | Inr blur_scores \<Rightarrow>
           let avg_blur = np_mean blur_scores in
           if 0.3 \<le> avg_blur \<and> avg_blur \<le> 0.9 then avg_blur
           else if avg_blur < 0.3 then avg_blur * 1.5
           else 0.8))"

text \<open>
  \<open>_passive_liveness_detection\<close>. An unopened capture raises \<open>ValueError\<close> inside the
  \<open>try\<close>, which the \<open>except\<close> branch turns into the dictionary with the \<open>error\<close> key; the
  three analysers catch their own exceptions.
\<close>

definition passive_liveness_detection ::
  "('img, 'frame, 'gray) externals \<Rightarrow> path \<Rightarrow> liveness_info" where
  "passive_liveness_detection ext video_path =
    (case VideoCapture ext video_path of
       None \<Rightarrow>
         \<lparr>liveness_detected = False, liveness_score = 0.0, confidence = 0.0,
          liveness_method = ''passive'', reason = None, indicators = None,
          error = Some (str_of_exception (ValueError (''Could not open video: '' @ video_path)))\<rparr>
     | Some stream \<Rightarrow>
         let frames = read_frames 0 stream [] in
         if length frames < 3 then
           \<lparr>liveness_detected = False, liveness_score = 0.0, confidence = 0.0,
            liveness_method = ''passive'', reason = Some ''Insufficient frames'', indicators = None,
            error = None\<rparr>
         else
           let motion_score = analyze_motion ext frames;
               texture_score = analyze_texture ext frames;
               blur_score = analyze_blur ext frames;
               liveness_score = motion_score * 0.4 + texture_score * 0.4 + blur_score * 0.2;
               is_live = (liveness_score \<ge> 0.6);
               confidence = (if is_live then min (liveness_score * 1.2) 1.0 else liveness_score * 0.8)
           in \<lparr>liveness_detected = is_live, liveness_score = liveness_score,
               confidence = confidence, liveness_method = ''passive'', reason = None,
               indicators = Some [''motion'' \<mapsto> motion_score, ''texture'' \<mapsto> texture_score,
                                  ''blur'' \<mapsto> blur_score],
               error = None\<rparr>)"

text \<open>
  The motion sub-score in the specification's words: each per-pair magnitude divided by
  10 and capped at 1, the mean of these, then the band limit.
\<close>

definition band_limit :: "real \<Rightarrow> real" where
  "band_limit avg = (if 0.1 \<le> avg \<and> avg \<le> 0.8 then avg else if avg < 0.1 then 2 * avg else 0.5)"

definition spec_motion :: "real list \<Rightarrow> real" where
  "spec_motion magnitudes =
     band_limit (sum_list (map (\<lambda>m. min (m / 10) 1) magnitudes) / real (length magnitudes))"

text \<open>
  The magnitudes that the optical flow returns for the consecutive pairs of a list of
  grey frames: \<open>flow_pairs ext grays mags\<close> holds when every pair has one and \<open>mags\<close>
  lists them in order.
\<close>

fun flow_pairs :: "('img, 'frame, 'gray) externals \<Rightarrow> 'gray list \<Rightarrow> real list \<Rightarrow> bool" where
  "flow_pairs ext (g1 # g2 # gs) (m # ms) =
     (flow_magnitude ext g1 g2 = Inr m \<and> flow_pairs ext (g2 # gs) ms)"
| "flow_pairs ext (g1 # g2 # gs) [] = False"
| "flow_pairs ext gs ms = (ms = [])"

section \<open>verification\_service: the orchestration\<close>

text \<open>
  \<open>_save_uploaded_files\<close>: \<open>upload_dir\<close> is \<open>uploads/verifications\<close>. Each step can
  raise; nothing here catches.
\<close>

definition save_uploaded_files ::
  "('img, 'frame, 'gray) externals \<Rightarrow> string \<Rightarrow> upload \<Rightarrow> upload \<Rightarrow> py_exception + (path \<times> path)" where
  "save_uploaded_files ext session_id id_document selfie_video =
    (let session_dir = ''uploads/verifications/'' @ session_id in
     case mkdir ext session_dir of
       Inl e \<Rightarrow> Inl e
     | Inr _ \<Rightarrow>
        let id_path = session_dir @ ''/id_'' @ filename id_document in
        (case write_upload ext id_path id_document of
           Inl e \<Rightarrow> Inl e
         | Inr _ \<Rightarrow>
            let selfie_path = session_dir @ ''/selfie_'' @ filename selfie_video in
            (case write_upload ext selfie_path selfie_video of
               Inl e \<Rightarrow> Inl e
             | Inr _ \<Rightarrow> Inr (id_path, selfie_path))))"

text \<open>
  \<open>VerificationService._process_document\<close> (of the verification service, which
  calls \<open>DocumentService.process_document\<close>). The callee returns a dictionary and never
  raises, so the \<open>except\<close> branch is not taken.
\<close>

definition verification_process_document ::
  "('img, 'frame, 'gray) externals \<Rightarrow> path \<Rightarrow> document_result" where
  "verification_process_document ext id_path =
    (let result = process_document ext id_path in
     \<lparr>document_result.document_valid = document_info.document_valid result,
      document_result.document_type = document_info.document_type result,
      document_result.extracted_data = document_info.extracted_data result,
      document_result.confidence = document_info.confidence result,
      document_result.error = document_info.error result\<rparr>)"

text \<open>\<open>VerificationService._process_face_verification\<close>.\<close>

definition process_face_verification ::
  "('img, 'frame, 'gray) externals \<Rightarrow> path \<Rightarrow> path \<Rightarrow> face_result" where
  "process_face_verification ext id_path selfie_path =
    (let doc_face_result = extract_face_from_document ext id_path in
     if \<not> face_extraction.face_detected doc_face_result then
       \<lparr>face_result.face_detected = False, face_result.face_match_score = 0.0,
        face_result.confidence = 0.0,
        face_result.error = Some ''No face detected in ID document'',
        document_face_confidence = None, selfie_face_confidence = None\<rparr>
     else
       let selfie_face_result = extract_face_from_selfie ext selfie_path in
       if \<not> face_extraction.face_detected selfie_face_result then
         \<lparr>face_result.face_detected = True, face_result.face_match_score = 0.0,
          face_result.confidence = face_extraction.confidence doc_face_result,
          face_result.error = Some ''No face detected in selfie'',
          document_face_confidence = None, selfie_face_confidence = None\<rparr>
       else
         let similarity_score = compare_faces (embedding doc_face_result)
                                              (embedding selfie_face_result);
             overall_confidence = face_extraction.confidence doc_face_result * 0.4
                                + face_extraction.confidence selfie_face_result * 0.4
                                + similarity_score * 0.2
         in \<lparr>face_result.face_detected = True,
             face_result.face_match_score = similarity_score,
             face_result.confidence = overall_confidence, face_result.error = None,
             document_face_confidence = Some (face_extraction.confidence doc_face_result),
             selfie_face_confidence = Some (face_extraction.confidence selfie_face_result)\<rparr>)"

text \<open>
  \<open>VerificationService._process_liveness_detection\<close>: it asks for passive detection,
  for which \<open>detect_liveness\<close> returns what \<open>_passive_liveness_detection\<close> returns. The
  \<open>reason\<close> key is not copied; a missing \<open>indicators\<close> key becomes the empty dictionary.
\<close>

definition process_liveness_detection ::
  "('img, 'frame, 'gray) externals \<Rightarrow> path \<Rightarrow> liveness_result" where
  "process_liveness_detection ext selfie_path =
    (let result = passive_liveness_detection ext selfie_path in
     \<lparr>liveness_result.liveness_detected = liveness_info.liveness_detected result,
      liveness_result.liveness_score = liveness_info.liveness_score result,
      liveness_result.liveness_method = liveness_info.liveness_method result,
      liveness_result.confidence = liveness_info.confidence result,
      liveness_result.indicators =
        Some (case liveness_info.indicators result of None \<Rightarrow> Map.empty | Some i \<Rightarrow> i),
      liveness_result.error = liveness_info.error result\<rparr>)"

text \<open>
  \<open>VerificationService.process_verification\<close>: the only step of the \<open>try\<close> body that
  can raise is \<open>_save_uploaded_files\<close>; the \<open>except\<close> branch returns the failed
  dictionary, which has the keys \<open>status\<close>, \<open>error\<close> and \<open>decision\<close> only.
\<close>

definition process_verification ::
  "('img, 'frame, 'gray) externals \<Rightarrow> settings \<Rightarrow> string \<Rightarrow> upload \<Rightarrow> upload \<Rightarrow> verification_result" where
  "process_verification ext cfg session_id id_document selfie_video =
    (case save_uploaded_files ext session_id id_document selfie_video of
       Inl e \<Rightarrow>
         \<lparr>status = ''failed'', decision = ''rejected'', decision_reason = None,
          verification_result.document_valid = None,
          verification_result.face_match_score = None,
          verification_result.liveness_score = None,
          processing_time = None,
          verification_result.error = Some (str_of_exception e)\<rparr>
     | Inr (id_path, selfie_path) \<Rightarrow>
         let document_res = verification_process_document ext id_path;
             face_res = process_face_verification ext id_path selfie_path;
             liveness_res = process_liveness_detection ext selfie_path
         in aggregate_results cfg document_res face_res liveness_res)"

section \<open>The specification's tables, for comparison with the code\<close>

text \<open>
  The six rows of the decision table of the specification, each a guard with its
  decision and reason, in the order of the specification.
\<close>

definition decision_table ::
  "settings \<Rightarrow> document_result \<Rightarrow> face_result \<Rightarrow> liveness_result \<Rightarrow> (bool \<times> string \<times> string) list" where
  "decision_table cfg d f l =
    [(\<not> document_result.document_valid d, ''rejected'', ''Invalid document''),
     (\<not> face_result.face_detected f, ''rejected'', ''No face detected''),
     (\<not> liveness_result.liveness_detected l, ''rejected'', ''Liveness detection failed''),
     (face_result.face_match_score f < FACE_MODEL_THRESHOLD cfg,
        ''rejected'', ''Face match insufficient''),
     (face_result.face_match_score f \<ge> 0.8
        \<and> liveness_result.liveness_score l \<ge> LIVENESS_CONFIDENCE_THRESHOLD cfg
        \<and> document_result.confidence d \<ge> 0.7, ''verified'', ''All checks passed''),
     (True, ''manual_review'', ''Requires manual review'')]"

text \<open>Row \<open>i\<close> fires when its guard holds and no earlier guard does.\<close>

definition fires :: "(bool \<times> string \<times> string) list \<Rightarrow> nat \<Rightarrow> bool" where
  "fires tbl i = (fst (tbl ! i) \<and> (\<forall>j<i. \<not> fst (tbl ! j)))"

text \<open>
  The validity confidence in the specification's words. The required fields of a type
  are its primary identifier (the passport number of a passport, the ID number of the
  other two types), the full name and the date of birth; a field is present when the map
  holds a non-empty string for it. The confidence is 0.7 times the fraction of the
  required fields that are present plus 0.3 times the score of the format check of the
  primary identifier.
\<close>

definition recognized :: "string \<Rightarrow> bool" where
  "recognized doc_type = (doc_type \<in> {''passport'', ''national_id'', ''drivers_license''})"

definition spec_required_fields :: "string \<Rightarrow> string set" where
  "spec_required_fields doc_type =
     (if doc_type = ''passport'' then {''passport_number'', ''full_name'', ''date_of_birth''}
      else {''id_number'', ''full_name'', ''date_of_birth''})"

definition fraction_present :: "(string \<rightharpoonup> string) \<Rightarrow> string \<Rightarrow> real" where
  "fraction_present data doc_type =
     real (card {f \<in> spec_required_fields doc_type. \<exists>v. data f = Some v \<and> v \<noteq> []})
       / real (card (spec_required_fields doc_type))"

definition primary_format_score ::
  "('img, 'frame, 'gray) externals \<Rightarrow> (string \<rightharpoonup> string) \<Rightarrow> string \<Rightarrow> real" where
  "primary_format_score ext data doc_type =
     (if doc_type = ''passport''
      then (case data ''passport_number'' of
              Some v \<Rightarrow> if re_match ext PASSPORT_FORMAT v then 0.3 else 0
            | None \<Rightarrow> 0)
      else (case data ''id_number'' of
              Some v \<Rightarrow> if 6 \<le> length v then 0.3 else 0
            | None \<Rightarrow> 0))"

definition spec_confidence ::
  "('img, 'frame, 'gray) externals \<Rightarrow> (string \<rightharpoonup> string) \<Rightarrow> string \<Rightarrow> real" where
  "spec_confidence ext data doc_type =
     0.7 * fraction_present data doc_type + 0.3 * primary_format_score ext data doc_type"

text \<open>
  The failure-safe signal of the document extractor in the specification's words: type
  unknown, not valid, confidence 0, no fields, and the error note.
\<close>

definition failure_safe_signal :: "string \<Rightarrow> document_info" where
  "failure_safe_signal note =
     \<lparr>document_type = ''unknown'', document_valid = False, confidence = 0,
      extracted_data = Map.empty, raw_text = None, region = None, error = Some note\<rparr>"

text \<open>
  The dictionary that the passive path returns for too few frames, and the dictionary of a
  failed verification with a given error text.
\<close>

definition insufficient_frames_result :: liveness_info where
  "insufficient_frames_result =
     \<lparr>liveness_detected = False, liveness_score = 0, confidence = 0,
      liveness_method = ''passive'', reason = Some ''Insufficient frames'',
      indicators = None, error = None\<rparr>"

definition failed_result :: "string \<Rightarrow> verification_result" where
  "failed_result detail =
     \<lparr>status = ''failed'', decision = ''rejected'', decision_reason = None,
      verification_result.document_valid = None, verification_result.face_match_score = None,
      verification_result.liveness_score = None, processing_time = None,
      verification_result.error = Some detail\<rparr>"

section \<open>An example environment\<close>

text \<open>
  Images are their shapes, frames and grey frames are numbers. The only readable
  document is a 10 by 16 image; every document shows a face and no selfie does; the video
  at \<open>clip2\<close> has two frames, the one at \<open>clip6\<close> six, and no other video opens.
  \<open>re_search\<close> and \<open>re_match\<close> list what Python's \<open>re\<close> returns for the passport
  patterns on the lines of the sample text.
\<close>

definition example_ext :: "(nat \<times> nat, nat, nat) externals" where
  "example_ext =
    \<lparr>imread = (\<lambda>p. if p = ''uploads/verifications/s1/id_doc.png'' then Some (10, 16) else None),
     preprocess_image = Inr,
     image_shape = (\<lambda>img. img),
     re_search = (\<lambda>r line.
        if r = PASSPORT_NUMBER \<and> line = ''PASSPORT NO: P123456789'' then Some ''P12345678''
        else if r = SURNAME \<and> line = ''SURNAME: DOE'' then Some ''DOE''
        else if r = GIVEN_NAMES \<and> line = ''GIVEN NAMES: JOHN MICHAEL'' then Some ''JOHN MICHAEL''
        else if r = DATE \<and> line = ''DATE OF BIRTH: 15 JAN 1990'' then Some ''15 JAN 1990''
        else if r = DATE \<and> line = ''DATE OF EXPIRATION: 01 JAN 2030'' then Some ''01 JAN 2030''
        else None),
     re_match = (\<lambda>r s. r = PASSPORT_FORMAT \<and> s = ''P12345678''),
     extract_face_from_document =
       (\<lambda>p. \<lparr>face_detected = True, confidence = 0.9, embedding = Some [1, 0], error = None\<rparr>),
     extract_face_from_selfie =
       (\<lambda>p. \<lparr>face_detected = False, confidence = 0, embedding = None,
               error = Some ''No faces detected in video''\<rparr>),
     VideoCapture = (\<lambda>p. if p = ''clip2'' then Some [0, 1]
                          else if p = ''clip6'' then Some [0, 1, 2, 3, 4, 5] else None),
     cvtColor = Inr,
     flow_magnitude = (\<lambda>g1 g2. Inr 6),
     laplacian_var = (\<lambda>g. Inr 450),
     mkdir = (\<lambda>p. Inr ()),
     write_upload = (\<lambda>p u. Inr ())\<rparr>"

text \<open>The same environment with a full disk: creating the session directory fails.\<close>

definition full_disk_ext :: "(nat \<times> nat, nat, nat) externals" where
  "full_disk_ext =
     example_ext\<lparr>mkdir := (\<lambda>p. Inl (LibraryError ''[Errno 28] No space left on device''))\<rparr>"

text \<open>
  Two more variants: one where the document image decodes to zero rows, and one where
  the preprocessing of the image raises.
\<close>

definition empty_image_ext :: "(nat \<times> nat, nat, nat) externals" where
  "empty_image_ext = example_ext\<lparr>imread := (\<lambda>p. Some (0, 16))\<rparr>"

definition broken_filter_ext :: "(nat \<times> nat, nat, nat) externals" where
  "broken_filter_ext =
     example_ext\<lparr>preprocess_image := (\<lambda>img. Inl (LibraryError ''bilateralFilter failed''))\<rparr>"

text \<open>A text with a passport number and a date of birth, but no name.\<close>

definition partial_passport_text :: string where
  "partial_passport_text =
     ''PASSPORT NO: P123456789'' @ [CHR 0x0A] @ ''DATE OF BIRTH: 15 JAN 1990''"

section \<open>Example signals\<close>

text \<open>
  A valid passport with confidence 0.75, a detected face with a given similarity and a
  passed liveness check with a given score.
\<close>

definition scenario_doc :: document_result where
  "scenario_doc = \<lparr>document_result.document_valid = True,
     document_result.document_type = ''passport'',
     document_result.extracted_data = Map.empty, document_result.confidence = 0.75,
     document_result.error = None\<rparr>"

definition scenario_face :: "real \<Rightarrow> face_result" where
  "scenario_face similarity = \<lparr>face_result.face_detected = True,
     face_result.face_match_score = similarity, face_result.confidence = 0.9,
     face_result.error = None, document_face_confidence = Some 0.9,
     selfie_face_confidence = Some 0.9\<rparr>"

definition scenario_liveness :: "real \<Rightarrow> liveness_result" where
  "scenario_liveness score = \<lparr>liveness_result.liveness_detected = True,
     liveness_result.liveness_score = score, liveness_result.liveness_method = ''passive'',
     liveness_result.confidence = 1, liveness_result.indicators = Some Map.empty,
     liveness_result.error = None\<rparr>"

section \<open>Auxiliary facts\<close>

lemma scenario_simps:
  "document_result.document_valid scenario_doc"
  "document_result.confidence scenario_doc = 0.75"
  "face_result.face_detected (scenario_face s)"
  "face_result.face_match_score (scenario_face s) = s"
  "liveness_result.liveness_detected (scenario_liveness v)"
  "liveness_result.liveness_score (scenario_liveness v) = v"
  by (simp_all add: scenario_doc_def scenario_face_def scenario_liveness_def)

section \<open>The decision\<close>

lemma fires_unique: "fires tbl i \<Longrightarrow> fires tbl j \<Longrightarrow> i = j"
  unfolding fires_def by (meson nat_neq_iff)

lemma fires_exists:
  assumes "fst (tbl ! k)"
  shows "\<exists>i\<le>k. fires tbl i"
proof -
  define i where "i = (LEAST n. fst (tbl ! n))"
  have "fst (tbl ! i)" unfolding i_def using assms by (rule LeastI)
  moreover have "\<not> fst (tbl ! j)" if "j < i" for j
    using that not_less_Least unfolding i_def by blast
  moreover have "i \<le> k" unfolding i_def using assms by (rule Least_le)
  ultimately show ?thesis unfolding fires_def by blast
qed

lemma first_match_outcome:
  assumes a: "fires (decision_table cfg d f l) i"
  shows "decision (aggregate_results cfg d f l) = fst (snd (decision_table cfg d f l ! i)) \<and>
         decision_reason (aggregate_results cfg d f l)
           = Some (snd (snd (decision_table cfg d f l ! i)))"
proof -
  let ?k = "(if \<not> document_result.document_valid d then 0
            else if \<not> face_result.face_detected f then 1
            else if \<not> liveness_result.liveness_detected l then 2
            else if face_result.face_match_score f < FACE_MODEL_THRESHOLD cfg then 3
            else if face_result.face_match_score f \<ge> 0.8
                  \<and> liveness_result.liveness_score l \<ge> LIVENESS_CONFIDENCE_THRESHOLD cfg
                  \<and> document_result.confidence d \<ge> 0.7 then 4 else 5) :: nat"
  have "fires (decision_table cfg d f l) ?k"
    by (simp add: fires_def decision_table_def less_Suc_eq numeral_eq_Suc)
  then have i: "i = ?k" using a fires_unique by blast
  show ?thesis
    unfolding i by (simp add: aggregate_results_def decision_table_def Let_def)
qed

text \<open>
  C1. For every document, face and liveness signal and every pair of thresholds, exactly
  one of the six rows of the decision table fires (the first whose guard holds), and
  \<open>_aggregate_results\<close> completes with the decision and the reason of that row.
\<close>

theorem aggregate_results_decision_table:
  "length (decision_table cfg d f l) = 6 \<and>
   (\<exists>!i. i < 6 \<and> fires (decision_table cfg d f l) i) \<and>
   (\<forall>i. fires (decision_table cfg d f l) i \<longrightarrow>
      decision (aggregate_results cfg d f l) = fst (snd (decision_table cfg d f l ! i)) \<and>
      decision_reason (aggregate_results cfg d f l)
        = Some (snd (snd (decision_table cfg d f l ! i)))) \<and>
   status (aggregate_results cfg d f l) = ''completed''"
proof (intro conjI)
  show "length (decision_table cfg d f l) = 6"
    by (simp add: decision_table_def)
  have "fst (decision_table cfg d f l ! 5)"
    by (simp add: decision_table_def)
  then obtain i where "i \<le> 5" "fires (decision_table cfg d f l) i"
    using fires_exists by blast
  then show "\<exists>!i. i < 6 \<and> fires (decision_table cfg d f l) i"
    using fires_unique by (intro ex1I [of _ i]) auto
  show "\<forall>i. fires (decision_table cfg d f l) i \<longrightarrow>
      decision (aggregate_results cfg d f l) = fst (snd (decision_table cfg d f l ! i)) \<and>
      decision_reason (aggregate_results cfg d f l)
        = Some (snd (snd (decision_table cfg d f l ! i)))"
    using first_match_outcome by blast
  show "status (aggregate_results cfg d f l) = ''completed''"
    by (simp add: aggregate_results_def Let_def split: prod.splits)
qed

theorem aggregate_results_decision_table_witness:
  "fires (decision_table default_settings scenario_doc (scenario_face 0.85) (scenario_liveness 0.92)) 4 \<and>
   decision (aggregate_results default_settings scenario_doc (scenario_face 0.85) (scenario_liveness 0.92))
     = ''verified'' \<and>
   decision_reason (aggregate_results default_settings scenario_doc (scenario_face 0.85) (scenario_liveness 0.92))
     = Some ''All checks passed''"
proof -
  have f: "fires (decision_table default_settings scenario_doc (scenario_face 0.85) (scenario_liveness 0.92)) 4"
    by (simp add: fires_def decision_table_def default_settings_def scenario_simps
        less_Suc_eq numeral_eq_Suc)
  from aggregate_results_decision_table
    [of default_settings scenario_doc "scenario_face 0.85" "scenario_liveness 0.92"] f
  have "decision (aggregate_results default_settings scenario_doc (scenario_face 0.85) (scenario_liveness 0.92))
          = fst (snd (decision_table default_settings scenario_doc (scenario_face 0.85) (scenario_liveness 0.92) ! 4))
      \<and> decision_reason (aggregate_results default_settings scenario_doc (scenario_face 0.85) (scenario_liveness 0.92))
          = Some (snd (snd (decision_table default_settings scenario_doc (scenario_face 0.85) (scenario_liveness 0.92) ! 4)))"
    by blast
  then show ?thesis using f by (simp add: decision_table_def)
qed

text \<open>
  C2 (amended). With a valid document, a detected face and a passed liveness check: a
  similarity equal to the face-match threshold is not rejected as
  \<open>Face match insufficient\<close>; and a similarity of exactly 0.8 with a liveness score equal
  to the liveness threshold and a document confidence of exactly 0.7 is verified with
  reason \<open>All checks passed\<close>, provided that the face-match threshold is at most 0.8.
\<close>

theorem boundary_behaviour:
  assumes "document_result.document_valid d" "face_result.face_detected f"
    "liveness_result.liveness_detected l"
  shows "(face_result.face_match_score f = FACE_MODEL_THRESHOLD cfg \<longrightarrow>
            decision_reason (aggregate_results cfg d f l) \<noteq> Some ''Face match insufficient'') \<and>
         (face_result.face_match_score f = 0.8 \<and>
          liveness_result.liveness_score l = LIVENESS_CONFIDENCE_THRESHOLD cfg \<and>
          document_result.confidence d = 0.7 \<and> FACE_MODEL_THRESHOLD cfg \<le> 0.8 \<longrightarrow>
            decision (aggregate_results cfg d f l) = ''verified'' \<and>
            decision_reason (aggregate_results cfg d f l) = Some ''All checks passed'')"
  using assms by (simp add: aggregate_results_def Let_def)

theorem boundary_behaviour_witness:
  "decision_reason (aggregate_results default_settings scenario_doc (scenario_face 0.6)
      (scenario_liveness 0.9)) \<noteq> Some ''Face match insufficient'' \<and>
   decision (aggregate_results default_settings (scenario_doc\<lparr>document_result.confidence := 0.7\<rparr>)
      (scenario_face 0.8) (scenario_liveness 0.9)) = ''verified'' \<and>
   decision_reason (aggregate_results default_settings
      (scenario_doc\<lparr>document_result.confidence := 0.7\<rparr>)
      (scenario_face 0.8) (scenario_liveness 0.9)) = Some ''All checks passed''"
proof -
  have d: "document_result.document_valid (scenario_doc\<lparr>document_result.confidence := 0.7\<rparr>)"
    by (simp add: scenario_doc_def)
  have "decision_reason (aggregate_results default_settings scenario_doc (scenario_face 0.6)
      (scenario_liveness 0.9)) \<noteq> Some ''Face match insufficient''"
    using boundary_behaviour [where d = scenario_doc and f = "scenario_face 0.6"
        and l = "scenario_liveness 0.9" and cfg = default_settings]
    by (simp add: scenario_simps default_settings_def)
  moreover have "decision (aggregate_results default_settings
        (scenario_doc\<lparr>document_result.confidence := 0.7\<rparr>)
        (scenario_face 0.8) (scenario_liveness 0.9)) = ''verified'' \<and>
      decision_reason (aggregate_results default_settings
        (scenario_doc\<lparr>document_result.confidence := 0.7\<rparr>)
        (scenario_face 0.8) (scenario_liveness 0.9)) = Some ''All checks passed''"
    using d boundary_behaviour [where d = "scenario_doc\<lparr>document_result.confidence := 0.7\<rparr>"
        and f = "scenario_face 0.8" and l = "scenario_liveness 0.9" and cfg = default_settings]
    by (simp add: scenario_simps default_settings_def)
  ultimately show ?thesis by simp
qed

text \<open>
  The second half of C2 as stated fails for a face-match threshold above 0.8: with both
  thresholds at 0.9, the boundary input is rejected by the fourth check.
\<close>

theorem boundary_verified_counterexample:
  "document_result.document_valid (scenario_doc\<lparr>document_result.confidence := 0.7\<rparr>) \<and>
   face_result.face_detected (scenario_face 0.8) \<and>
   liveness_result.liveness_detected (scenario_liveness 0.9) \<and>
   decision (aggregate_results \<lparr>FACE_MODEL_THRESHOLD = 0.9, LIVENESS_CONFIDENCE_THRESHOLD = 0.9\<rparr>
      (scenario_doc\<lparr>document_result.confidence := 0.7\<rparr>) (scenario_face 0.8) (scenario_liveness 0.9))
     = ''rejected'' \<and>
   decision_reason (aggregate_results \<lparr>FACE_MODEL_THRESHOLD = 0.9, LIVENESS_CONFIDENCE_THRESHOLD = 0.9\<rparr>
      (scenario_doc\<lparr>document_result.confidence := 0.7\<rparr>) (scenario_face 0.8) (scenario_liveness 0.9))
     = Some ''Face match insufficient''"
  by (simp add: aggregate_results_def scenario_simps Let_def scenario_doc_def)

section \<open>Face comparison\<close>

lemma np_dot_commute: "np_dot u v = np_dot v u"
  unfolding np_dot_def
proof (induction u arbitrary: v)
  case Nil
  then show ?case by simp
next
  case (Cons x u)
  then show ?case by (cases v) (simp_all add: mult.commute)
qed

lemma np_dot_scaled:
  "np_dot (map (\<lambda>x. x / a) u) (map (\<lambda>y. y / b) v) = (\<Sum>(x, y)\<leftarrow>zip u v. x * y) / (a * b)"
  unfolding np_dot_def
proof (induction u arbitrary: v)
  case Nil
  then show ?case by simp
next
  case (Cons x u)
  then show ?case by (cases v) (simp_all add: add_divide_distrib)
qed

lemma compare_faces_commute: "compare_faces a b = compare_faces b a"
  by (cases a; cases b) (auto simp: compare_faces_def Let_def np_dot_commute)

lemma compare_faces_range: "0 \<le> compare_faces a b \<and> compare_faces a b \<le> 1"
  by (cases a; cases b) (auto simp: compare_faces_def Let_def)

lemma compare_faces_cosine:
  assumes "x \<noteq> []" "length x = length y" "linalg_norm x \<noteq> 0" "linalg_norm y \<noteq> 0"
  shows "compare_faces (Some x) (Some y) = max 0 (min 1 (cosine_similarity x y))"
proof -
  have "y \<noteq> []" using assms(1,2) by auto
  then show ?thesis
    using assms by (simp add: compare_faces_def Let_def np_dot_scaled cosine_similarity_def)
qed

text \<open>
  C3. \<open>compare_faces\<close> is symmetric; it returns 0 when either embedding is \<open>None\<close> or
  empty or when the lengths differ; and for two present embeddings of equal length the
  result lies in the interval from 0 to 1, where it is the cosine similarity clamped to
  that interval whenever both norms are non-zero.
\<close>

theorem compare_faces_symmetric_clamped:
  "compare_faces a b = compare_faces b a \<and>
   (a = None \<or> a = Some [] \<or> b = None \<or> b = Some [] \<or>
      (\<exists>x y. a = Some x \<and> b = Some y \<and> length x \<noteq> length y)
      \<longrightarrow> compare_faces a b = 0) \<and>
   (\<forall>x y. a = Some x \<and> b = Some y \<and> x \<noteq> [] \<and> length x = length y \<longrightarrow>
      0 \<le> compare_faces a b \<and> compare_faces a b \<le> 1 \<and>
      (linalg_norm x \<noteq> 0 \<and> linalg_norm y \<noteq> 0 \<longrightarrow>
         compare_faces a b = max 0 (min 1 (cosine_similarity x y))))"
proof (intro conjI)
  show "compare_faces a b = compare_faces b a"
    by (rule compare_faces_commute)
  show "a = None \<or> a = Some [] \<or> b = None \<or> b = Some [] \<or>
      (\<exists>x y. a = Some x \<and> b = Some y \<and> length x \<noteq> length y)
      \<longrightarrow> compare_faces a b = 0"
    by (cases a; cases b) (auto simp: compare_faces_def)
  show "\<forall>x y. a = Some x \<and> b = Some y \<and> x \<noteq> [] \<and> length x = length y \<longrightarrow>
      0 \<le> compare_faces a b \<and> compare_faces a b \<le> 1 \<and>
      (linalg_norm x \<noteq> 0 \<and> linalg_norm y \<noteq> 0 \<longrightarrow>
         compare_faces a b = max 0 (min 1 (cosine_similarity x y)))"
    using compare_faces_range compare_faces_cosine by blast
qed

theorem compare_faces_symmetric_clamped_witness:
  "compare_faces (Some (replicate 128 1)) (Some (replicate 256 1)) = 0 \<and>
   compare_faces (Some [3, 4]) (Some [4, 3]) = compare_faces (Some [4, 3]) (Some [3, 4]) \<and>
   compare_faces (Some [3, 4]) (Some [4, 3]) = 24 / 25"
proof -
  have n: "linalg_norm [3, 4] = 5" "linalg_norm [4, 3] = 5"
    by (simp_all add: linalg_norm_def)
  have c: "cosine_similarity [3, 4] [4, 3] = 24 / 25"
    by (simp add: cosine_similarity_def n)
  have "compare_faces (Some (replicate 128 1)) (Some (replicate 256 1)) = 0"
    using compare_faces_symmetric_clamped [of "Some (replicate 128 1)" "Some (replicate 256 1)"]
    by simp
  moreover have "compare_faces (Some [3, 4]) (Some [4, 3]) = compare_faces (Some [4, 3]) (Some [3, 4])
     \<and> compare_faces (Some [3, 4]) (Some [4, 3]) = max 0 (min 1 (cosine_similarity [3, 4] [4, 3]))"
    using compare_faces_symmetric_clamped [of "Some [3, 4]" "Some [4, 3]"] n
    by simp
  ultimately show ?thesis by (simp add: c)
qed

text \<open>
  C10. When the document shows a face and the selfie video does not,
  \<open>_process_face_verification\<close> returns \<open>face_detected = True\<close> with a match score of 0
  and the confidence of the document face; with a valid document, a passed liveness
  check and a positive face-match threshold the decision is then \<open>rejected\<close> with reason
  \<open>Face match insufficient\<close> (hence not \<open>No face detected\<close>).
\<close>

theorem selfie_without_face_rejected:
  assumes "face_extraction.face_detected (extract_face_from_document ext id_path)"
    and "\<not> face_extraction.face_detected (extract_face_from_selfie ext selfie_path)"
  shows "face_result.face_detected (process_face_verification ext id_path selfie_path) \<and>
         face_result.face_match_score (process_face_verification ext id_path selfie_path) = 0 \<and>
         face_result.confidence (process_face_verification ext id_path selfie_path)
           = face_extraction.confidence (extract_face_from_document ext id_path) \<and>
         (\<forall>cfg d l. document_result.document_valid d \<and> liveness_result.liveness_detected l
              \<and> 0 < FACE_MODEL_THRESHOLD cfg \<longrightarrow>
            decision (aggregate_results cfg d (process_face_verification ext id_path selfie_path) l)
              = ''rejected'' \<and>
            decision_reason (aggregate_results cfg d (process_face_verification ext id_path selfie_path) l)
              = Some ''Face match insufficient'')"
  using assms by (simp add: process_face_verification_def aggregate_results_def Let_def)

lemma example_faces:
  "face_extraction.face_detected (extract_face_from_document example_ext p)"
  "\<not> face_extraction.face_detected (extract_face_from_selfie example_ext p)"
  "face_extraction.confidence (extract_face_from_document example_ext p) = 0.9"
  by (simp_all add: example_ext_def)

theorem selfie_without_face_rejected_witness:
  "face_extraction.face_detected (extract_face_from_document example_ext ''id.png'') \<and>
   \<not> face_extraction.face_detected (extract_face_from_selfie example_ext ''clip6'') \<and>
   face_result.face_match_score (process_face_verification example_ext ''id.png'' ''clip6'') = 0 \<and>
   face_result.confidence (process_face_verification example_ext ''id.png'' ''clip6'') = 0.9 \<and>
   decision_reason (aggregate_results default_settings scenario_doc
      (process_face_verification example_ext ''id.png'' ''clip6'') (scenario_liveness 0.95))
     = Some ''Face match insufficient''"
proof -
  have t: "0 < FACE_MODEL_THRESHOLD default_settings"
    by (simp add: default_settings_def)
  show ?thesis
    using selfie_without_face_rejected [OF example_faces(1) example_faces(2), of "''id.png''" "''clip6''"]
      example_faces t scenario_simps(1,5)
    by auto
qed

section \<open>The document extractor\<close>

lemma detect_document_type_zero_height:
  assumes "fst (image_shape ext img) = 0"
  shows "detect_document_type ext img = Inl ZeroDivisionError"
proof -
  obtain w where s: "image_shape ext img = (0, w)"
    using assms by (cases "image_shape ext img") simp
  show ?thesis
    unfolding detect_document_type_def s by (simp only: prod.case Let_def if_True refl)
qed

lemma detect_document_type_shape:
  assumes s: "image_shape ext img = (h, w)" and h: "h \<noteq> 0"
    and r: "r = real w / real h"
    and rg: "rg = \<lparr>width = w, height = h, aspect_ratio = r\<rparr>"
  shows "detect_document_type ext img =
    (if 1.4 \<le> r \<and> r \<le> 1.7 then Inr (''passport'', rg)
     else if 0.6 \<le> r \<and> r \<le> 0.8 then Inr (''national_id'', rg)
     else if 1.5 \<le> r \<and> r \<le> 1.8 then Inr (''drivers_license'', rg)
     else Inr (''unknown'', rg))"
  unfolding detect_document_type_def s rg r using h
  by (simp only: prod.case Let_def if_False)

lemma classify_ratio:
  fixes r :: real
  assumes "aspect_ratio rg = r"
  shows "\<exists>t rg'. (if 1.4 \<le> r \<and> r \<le> 1.7 then Inr (''passport'', rg)
              else if 0.6 \<le> r \<and> r \<le> 0.8 then Inr (''national_id'', rg)
              else if 1.5 \<le> r \<and> r \<le> 1.8 then Inr (''drivers_license'', rg)
              else Inr (''unknown'', rg)) = (Inr (t, rg') :: py_exception + (string \<times> region)) \<and>
           aspect_ratio rg' = r \<and>
           (t = ''passport'' \<longleftrightarrow> 1.4 \<le> r \<and> r \<le> 1.7) \<and>
           (t = ''national_id'' \<longleftrightarrow> 0.6 \<le> r \<and> r \<le> 0.8) \<and>
           (t = ''drivers_license'' \<longleftrightarrow> 1.7 < r \<and> r \<le> 1.8) \<and>
           (t = ''unknown'' \<longleftrightarrow> r < 0.6 \<or> (0.8 < r \<and> r < 1.4) \<or> 1.8 < r)"
  using assms by auto

lemma detect_document_type_classified:
  assumes s: "image_shape ext img = (h, w)" and h: "h \<noteq> 0" and r: "r = real w / real h"
  shows "\<exists>t rg. detect_document_type ext img = Inr (t, rg) \<and> aspect_ratio rg = r \<and>
           (t = ''passport'' \<longleftrightarrow> 1.4 \<le> r \<and> r \<le> 1.7) \<and>
           (t = ''national_id'' \<longleftrightarrow> 0.6 \<le> r \<and> r \<le> 0.8) \<and>
           (t = ''drivers_license'' \<longleftrightarrow> 1.7 < r \<and> r \<le> 1.8) \<and>
           (t = ''unknown'' \<longleftrightarrow> r < 0.6 \<or> (0.8 < r \<and> r < 1.4) \<or> 1.8 < r)"
proof -
  define rg where "rg = \<lparr>width = w, height = h, aspect_ratio = r\<rparr>"
  have a: "aspect_ratio rg = r" by (simp add: rg_def)
  show ?thesis
    unfolding detect_document_type_shape [OF s h r rg_def] by (rule classify_ratio [OF a])
qed

lemma detect_document_type_Inr:
  assumes "fst (image_shape ext img) \<noteq> 0"
  shows "\<exists>t rg. detect_document_type ext img = Inr (t, rg)"
proof -
  obtain h w where s: "image_shape ext img = (h, w)" and h: "h \<noteq> 0"
    using assms by (cases "image_shape ext img") simp
  from detect_document_type_classified [OF s h refl]
  show ?thesis by (elim exE conjE) (intro exI, assumption)
qed

text \<open>
  C7. \<open>process_document\<close> returns a dictionary for every path and every behaviour of the
  libraries. Each failure inside it (an unreadable image, an exception of the
  preprocessing, a zero height, and in general any exception of the \<open>try\<close> body) yields
  the failure-safe signal with the error's text as its note; without such a failure the
  result carries no error note.
\<close>

theorem process_document_failure_safe:
  "(imread ext image_path = None \<longrightarrow>
      process_document ext image_path
        = failure_safe_signal (''Could not read image: '' @ image_path)) \<and>
   (\<forall>img e. imread ext image_path = Some img \<and> preprocess_image ext img = Inl e \<longrightarrow>
      process_document ext image_path = failure_safe_signal (str_of_exception e)) \<and>
   (\<forall>img processed. imread ext image_path = Some img \<and> preprocess_image ext img = Inr processed
        \<and> fst (image_shape ext processed) = 0 \<longrightarrow>
      process_document ext image_path = failure_safe_signal ''division by zero'') \<and>
   (\<forall>img processed. imread ext image_path = Some img \<and> preprocess_image ext img = Inr processed
        \<and> fst (image_shape ext processed) \<noteq> 0 \<longrightarrow>
      document_info.error (process_document ext image_path) = None) \<and>
   (\<forall>e. process_document_body ext image_path = Inl e \<longrightarrow>
      process_document ext image_path = failure_safe_signal (str_of_exception e))"
proof (intro conjI allI impI)
  assume "imread ext image_path = None"
  then show "process_document ext image_path
        = failure_safe_signal (''Could not read image: '' @ image_path)"
    by (simp add: process_document_def process_document_body_def failure_safe_signal_def)
next
  fix img e
  assume "imread ext image_path = Some img \<and> preprocess_image ext img = Inl e"
  then show "process_document ext image_path = failure_safe_signal (str_of_exception e)"
    by (simp add: process_document_def process_document_body_def failure_safe_signal_def)
next
  fix img processed
  assume "imread ext image_path = Some img \<and> preprocess_image ext img = Inr processed
        \<and> fst (image_shape ext processed) = 0"
  then show "process_document ext image_path = failure_safe_signal ''division by zero''"
    by (simp add: process_document_def process_document_body_def failure_safe_signal_def
        detect_document_type_zero_height)
next
  fix img processed
  assume a: "imread ext image_path = Some img \<and> preprocess_image ext img = Inr processed
        \<and> fst (image_shape ext processed) \<noteq> 0"
  then have "fst (image_shape ext processed) \<noteq> 0" by (elim conjE)
  from detect_document_type_Inr [OF this]
  obtain t rg where "detect_document_type ext processed = Inr (t, rg)"
    by (elim exE)
  with a show "document_info.error (process_document ext image_path) = None"
    by (simp add: process_document_def process_document_body_def Let_def split: prod.splits)
next
  fix e
  assume "process_document_body ext image_path = Inl e"
  then show "process_document ext image_path = failure_safe_signal (str_of_exception e)"
    by (simp add: process_document_def failure_safe_signal_def)
qed

lemma example_documents:
  "imread example_ext ''missing.png'' = None"
  "imread example_ext ''uploads/verifications/s1/id_doc.png'' = Some (10, 16)"
  "preprocess_image example_ext (10, 16) = Inr (10, 16)"
  "fst (image_shape example_ext (10, 16)) \<noteq> 0"
  "imread empty_image_ext ''uploads/verifications/s1/id_doc.png'' = Some (0, 16)"
  "preprocess_image empty_image_ext (0, 16) = Inr (0, 16)"
  "fst (image_shape empty_image_ext (0, 16)) = 0"
  "preprocess_image broken_filter_ext (10, 16) = Inl (LibraryError ''bilateralFilter failed'')"
  "imread broken_filter_ext ''uploads/verifications/s1/id_doc.png'' = Some (10, 16)"
  by (simp_all add: example_ext_def empty_image_ext_def broken_filter_ext_def)

theorem process_document_failure_safe_witness:
  "process_document example_ext ''missing.png''
     = \<lparr>document_type = ''unknown'', document_valid = False, confidence = 0,
        extracted_data = Map.empty, raw_text = None, region = None,
        error = Some ''Could not read image: missing.png''\<rparr> \<and>
   process_document broken_filter_ext ''uploads/verifications/s1/id_doc.png''
     = \<lparr>document_type = ''unknown'', document_valid = False, confidence = 0,
        extracted_data = Map.empty, raw_text = None, region = None,
        error = Some ''bilateralFilter failed''\<rparr> \<and>
   process_document empty_image_ext ''uploads/verifications/s1/id_doc.png''
     = \<lparr>document_type = ''unknown'', document_valid = False, confidence = 0,
        extracted_data = Map.empty, raw_text = None, region = None,
        error = Some ''division by zero''\<rparr> \<and>
   document_info.error (process_document example_ext ''uploads/verifications/s1/id_doc.png'') = None"
proof (intro conjI)
  show "process_document example_ext ''missing.png''
     = \<lparr>document_type = ''unknown'', document_valid = False, confidence = 0,
        extracted_data = Map.empty, raw_text = None, region = None,
        error = Some ''Could not read image: missing.png''\<rparr>"
    using process_document_failure_safe [of example_ext "''missing.png''"] example_documents(1)
    by (simp add: failure_safe_signal_def)
  show "process_document broken_filter_ext ''uploads/verifications/s1/id_doc.png''
     = \<lparr>document_type = ''unknown'', document_valid = False, confidence = 0,
        extracted_data = Map.empty, raw_text = None, region = None,
        error = Some ''bilateralFilter failed''\<rparr>"
    using process_document_failure_safe
      [of broken_filter_ext "''uploads/verifications/s1/id_doc.png''"] example_documents(8,9)
    by (simp add: failure_safe_signal_def)
  show "process_document empty_image_ext ''uploads/verifications/s1/id_doc.png''
     = \<lparr>document_type = ''unknown'', document_valid = False, confidence = 0,
        extracted_data = Map.empty, raw_text = None, region = None,
        error = Some ''division by zero''\<rparr>"
    using process_document_failure_safe
      [of empty_image_ext "''uploads/verifications/s1/id_doc.png''"] example_documents(5,6,7)
    by (simp add: failure_safe_signal_def)
  show "document_info.error (process_document example_ext ''uploads/verifications/s1/id_doc.png'') = None"
    using process_document_failure_safe
      [of example_ext "''uploads/verifications/s1/id_doc.png''"] example_documents(2,3,4)
    by simp
qed

text \<open>
  C9 (amended). For an image of positive height, with \<open>r = width / height\<close>: the type
  is passport exactly for \<open>1.4 \<le> r \<le> 1.7\<close>, national\_id exactly for
  \<open>0.6 \<le> r \<le> 0.8\<close>, drivers\_license exactly for \<open>1.7 < r \<le> 1.8\<close>, and unknown for
  every other ratio.
\<close>

theorem detect_document_type_ranges:
  assumes "image_shape ext img = (h, w)" and "0 < h"
  shows "\<exists>t rg. detect_document_type ext img = Inr (t, rg) \<and>
           aspect_ratio rg = real w / real h \<and>
           (t = ''passport'' \<longleftrightarrow> 1.4 \<le> real w / real h \<and> real w / real h \<le> 1.7) \<and>
           (t = ''national_id'' \<longleftrightarrow> 0.6 \<le> real w / real h \<and> real w / real h \<le> 0.8) \<and>
           (t = ''drivers_license'' \<longleftrightarrow> 1.7 < real w / real h \<and> real w / real h \<le> 1.8) \<and>
           (t = ''unknown'' \<longleftrightarrow> real w / real h < 0.6
               \<or> (0.8 < real w / real h \<and> real w / real h < 1.4) \<or> 1.8 < real w / real h)"
proof -
  have h: "h \<noteq> 0" using assms(2) by simp
  show ?thesis by (rule detect_document_type_classified [OF assms(1) h refl])
qed

lemma example_shapes: "image_shape example_ext (h, w) = (h, w)"
  by (simp add: example_ext_def)

theorem detect_document_type_ranges_witness:
  "(\<exists>rg. detect_document_type example_ext (10, 18) = Inr (''drivers_license'', rg)) \<and>
   (\<exists>rg. detect_document_type example_ext (10, 16) = Inr (''passport'', rg)) \<and>
   (\<exists>rg. detect_document_type example_ext (10, 7) = Inr (''national_id'', rg)) \<and>
   (\<exists>rg. detect_document_type example_ext (10, 10) = Inr (''unknown'', rg))"
proof -
  have h: "(0::nat) < 10" by simp
  have r: "real 18 / real 10 = (1.8::real)" "real 16 / real 10 = (1.6::real)"
    "real 7 / real 10 = (0.7::real)" "real 10 / real 10 = (1::real)"
    by simp_all
  have "\<exists>rg. detect_document_type example_ext (10, 18) = Inr (''drivers_license'', rg)"
    using detect_document_type_ranges [OF example_shapes h, of 18] unfolding r by auto
  moreover have "\<exists>rg. detect_document_type example_ext (10, 16) = Inr (''passport'', rg)"
    using detect_document_type_ranges [OF example_shapes h, of 16] unfolding r by auto
  moreover have "\<exists>rg. detect_document_type example_ext (10, 7) = Inr (''national_id'', rg)"
    using detect_document_type_ranges [OF example_shapes h, of 7] unfolding r by auto
  moreover have "\<exists>rg. detect_document_type example_ext (10, 10) = Inr (''unknown'', rg)"
    using detect_document_type_ranges [OF example_shapes h, of 10] unfolding r by auto
  ultimately show ?thesis by (intro conjI)
qed

text \<open>
  C9 as stated gives drivers\_license to every ratio from 1.5 to 1.8; a 16 by 10 image has
  ratio 1.6 and is a passport, because the passport branch is tried first.
\<close>

theorem aspect_ratio_overlap_counterexample:
  "(1.5::real) \<le> real 16 / real 10 \<and> real 16 / real 10 \<le> (1.8::real) \<and>
   detect_document_type example_ext (10, 16)
     = Inr (''passport'', \<lparr>width = 16, height = 10, aspect_ratio = 1.6\<rparr>)"
  by (simp add: detect_document_type_def example_ext_def)

section \<open>Passive liveness\<close>

lemma read_frames_upper:
  "2 * length (read_frames frame_count stream frames)
     \<le> 2 * length frames + length stream + (if frame_count mod 2 = 0 then 1 else 0)"
proof (induction stream arbitrary: frame_count frames)
  case Nil
  then show ?case by simp
next
  case (Cons frame stream)
  show ?case
  proof (cases "frame_count < 50")
    case True
    note c = True
    show ?thesis
    proof (cases "frame_count mod 2 = 0")
      case True
      then have "Suc frame_count mod 2 \<noteq> 0" by (simp add: mod_Suc)
      with Cons.IH [of "Suc frame_count" "frames @ [frame]"] c True
      show ?thesis by simp
    next
      case False
      with Cons.IH [of "Suc frame_count" frames] c
      show ?thesis by (simp split: if_splits)
    qed
  next
    case False
    then show ?thesis by simp
  qed
qed

lemma read_frames_lower: "length frames \<le> length (read_frames frame_count stream frames)"
proof (induction stream arbitrary: frame_count frames)
  case Nil
  then show ?case by simp
next
  case (Cons frame stream)
  have "length frames \<le> length (if frame_count mod 2 = 0 then frames @ [frame] else frames)"
    by simp
  also have "\<dots> \<le> length (read_frames (frame_count + 1) stream
                        (if frame_count mod 2 = 0 then frames @ [frame] else frames))"
    by (rule Cons.IH)
  finally show ?case by simp
qed

lemma five_frames:
  assumes "5 \<le> length stream"
  shows "3 \<le> length (read_frames 0 stream [])"
proof -
  obtain a b c d e rest where s: "stream = a # b # c # d # e # rest"
    using assms by (auto simp: numeral_eq_Suc Suc_le_length_iff)
  have "read_frames 0 stream [] = read_frames (Suc (Suc (Suc (Suc (Suc 0))))) rest [a, c, e]"
    unfolding s by simp
  then show ?thesis
    using read_frames_lower [of "[a, c, e]" "Suc (Suc (Suc (Suc (Suc 0))))" rest] by simp
qed

lemma few_sampled_frames: "length (read_frames 0 stream []) < 3 \<longleftrightarrow> length stream < 5"
proof
  assume "length (read_frames 0 stream []) < 3"
  then show "length stream < 5" using five_frames [of stream] by (cases "5 \<le> length stream") simp_all
next
  assume "length stream < 5"
  then show "length (read_frames 0 stream []) < 3"
    using read_frames_upper [of 0 stream "[]"] by simp
qed

text \<open>
  C5 (amended). For every passive-liveness video that opens and yields fewer than 3
  sampled frames (which is the case exactly when it has fewer than 5 frames, in particular
  for a 2-frame video), the result is \<open>liveness_detected = False\<close>, score 0, confidence 0
  and \<open>reason = 'Insufficient frames'\<close>, without an error.
\<close>

theorem passive_insufficient_frames:
  assumes "VideoCapture ext video_path = Some stream"
  shows "(length (read_frames 0 stream []) < 3 \<longrightarrow>
            passive_liveness_detection ext video_path = insufficient_frames_result) \<and>
         (length stream = 2 \<longrightarrow> length (read_frames 0 stream []) < 3) \<and>
         (length (read_frames 0 stream []) < 3 \<longleftrightarrow> length stream < 5)"
proof (intro conjI impI)
  assume "length (read_frames 0 stream []) < 3"
  then show "passive_liveness_detection ext video_path = insufficient_frames_result"
    using assms by (simp add: passive_liveness_detection_def insufficient_frames_result_def Let_def)
next
  assume "length stream = 2"
  then show "length (read_frames 0 stream []) < 3"
    by (simp add: few_sampled_frames)
next
  show "length (read_frames 0 stream []) < 3 \<longleftrightarrow> length stream < 5"
    by (rule few_sampled_frames)
qed

lemma example_clip2: "VideoCapture example_ext ''clip2'' = Some [0, 1]"
  by (simp add: example_ext_def)

theorem passive_insufficient_frames_witness:
  "VideoCapture example_ext ''clip2'' = Some [0, 1] \<and> length [0::nat, 1] = 2 \<and>
   passive_liveness_detection example_ext ''clip2''
     = \<lparr>liveness_detected = False, liveness_score = 0, confidence = 0,
        liveness_method = ''passive'', reason = Some ''Insufficient frames'',
        indicators = None, error = None\<rparr>"
  using passive_insufficient_frames [OF example_clip2] example_clip2
  by (simp add: insufficient_frames_result_def)

text \<open>
  C5 as stated names the reason \<open>insufficient_frames\<close>; the code writes
  \<open>Insufficient frames\<close>.
\<close>

theorem insufficient_frames_reason_counterexample:
  "VideoCapture example_ext ''clip2'' = Some [0, 1] \<and>
   liveness_info.reason (passive_liveness_detection example_ext ''clip2'')
     = Some ''Insufficient frames'' \<and>
   liveness_info.reason (passive_liveness_detection example_ext ''clip2'')
     \<noteq> Some ''insufficient_frames''"
  by (simp add: passive_liveness_detection_def example_ext_def)

lemma motion_scores_flow_pairs:
  "flow_pairs ext grays mags \<Longrightarrow>
   motion_scores ext grays = Inr (map (\<lambda>m. min (m / 10) 1) mags)"
  by (induction ext grays mags rule: flow_pairs.induct) simp_all

lemma analyze_motion_spec:
  assumes "2 \<le> length frames" "gray_frames ext frames = Inr grays" "flow_pairs ext grays mags"
  shows "analyze_motion ext frames = spec_motion mags"
  using assms
  by (simp add: analyze_motion_def motion_scores_flow_pairs spec_motion_def band_limit_def
      np_mean_def Let_def mult.commute)

text \<open>
  C6. For every passive run with at least 3 sampled frames whose grey conversions and
  optical flows return their values, the liveness score is
  \<open>0.4 * motion + 0.4 * texture + 0.2 * blur\<close> and the check passes exactly when the
  score is at least 0.6; here the motion sub-score is the specification's: the per-pair
  magnitudes divided by 10 and capped at 1, averaged, and the average band-limited
  (unchanged in [0.1, 0.8], doubled below 0.1, replaced by 0.5 above 0.8).
\<close>

theorem passive_liveness_score:
  assumes "VideoCapture ext video_path = Some stream"
    and "3 \<le> length (read_frames 0 stream [])"
    and "gray_frames ext (read_frames 0 stream []) = Inr grays"
    and "flow_pairs ext grays mags"
  shows "liveness_info.liveness_score (passive_liveness_detection ext video_path)
           = 0.4 * spec_motion mags
             + 0.4 * analyze_texture ext (read_frames 0 stream [])
             + 0.2 * analyze_blur ext (read_frames 0 stream []) \<and>
         (liveness_info.liveness_detected (passive_liveness_detection ext video_path)
            \<longleftrightarrow> liveness_info.liveness_score (passive_liveness_detection ext video_path) \<ge> 0.6) \<and>
         liveness_info.indicators (passive_liveness_detection ext video_path)
           = Some [''motion'' \<mapsto> spec_motion mags,
                   ''texture'' \<mapsto> analyze_texture ext (read_frames 0 stream []),
                   ''blur'' \<mapsto> analyze_blur ext (read_frames 0 stream [])]"
proof -
  have m: "analyze_motion ext (read_frames 0 stream []) = spec_motion mags"
    using assms by (intro analyze_motion_spec) simp_all
  have n: "\<not> length (read_frames 0 stream []) < 3" using assms(2) by simp
  show ?thesis
    using assms(1) n by (simp add: passive_liveness_detection_def Let_def m del: read_frames.simps)
qed

lemma example_clip6:
  "VideoCapture example_ext ''clip6'' = Some [0, 1, 2, 3, 4, 5]"
  "read_frames 0 [0, 1, 2, 3, 4, 5::nat] [] = [0, 2, 4]"
  "gray_frames example_ext [0, 2, 4] = Inr [0, 2, 4]"
  "flow_pairs example_ext [0, 2, 4] [6, 6]"
  "analyze_texture example_ext [0, 2, 4] = 0.9"
  "analyze_blur example_ext [0, 2, 4] = 0.8"
  "spec_motion [6, 6] = 0.6"
  by (simp_all add: example_ext_def analyze_texture_def analyze_blur_def np_mean_def
      spec_motion_def band_limit_def)

theorem passive_liveness_score_witness:
  "VideoCapture example_ext ''clip6'' = Some [0, 1, 2, 3, 4, 5] \<and>
   3 \<le> length (read_frames 0 [0, 1, 2, 3, 4, 5::nat] []) \<and>
   gray_frames example_ext (read_frames 0 [0, 1, 2, 3, 4, 5] []) = Inr [0, 2, 4] \<and>
   flow_pairs example_ext [0, 2, 4] [6, 6] \<and>
   liveness_info.liveness_score (passive_liveness_detection example_ext ''clip6'') = 0.76 \<and>
   liveness_info.liveness_detected (passive_liveness_detection example_ext ''clip6'')"
proof -
  have a: "3 \<le> length (read_frames 0 [0, 1, 2, 3, 4, 5::nat] [])"
    by (simp only: example_clip6(2)) simp
  have b: "gray_frames example_ext (read_frames 0 [0, 1, 2, 3, 4, 5] []) = Inr [0, 2, 4]"
    by (simp only: example_clip6(2,3))
  from passive_liveness_score [OF example_clip6(1) a b example_clip6(4)]
  have "liveness_info.liveness_score (passive_liveness_detection example_ext ''clip6'') = 0.76 \<and>
        liveness_info.liveness_detected (passive_liveness_detection example_ext ''clip6'')"
    by (simp only: example_clip6) simp
  with a b show ?thesis using example_clip6(1,4) by (intro conjI) simp_all
qed

section \<open>Orchestration faults\<close>

text \<open>
  C4 (amended). \<open>process_verification\<close> returns a dictionary in every case. When saving
  the uploads raises (the only fault of the orchestration outside the extractors), the
  result has status \<open>failed\<close>, decision \<open>rejected\<close> and the key \<open>error\<close> holding the
  text of the exception as it is, with no \<open>decision_reason\<close>; otherwise the status is
  \<open>completed\<close>.
\<close>

theorem process_verification_fault:
  "(\<forall>e. save_uploaded_files ext session_id id_document selfie_video = Inl e \<longrightarrow>
      process_verification ext cfg session_id id_document selfie_video
        = failed_result (str_of_exception e)) \<and>
   (\<forall>paths. save_uploaded_files ext session_id id_document selfie_video = Inr paths \<longrightarrow>
      status (process_verification ext cfg session_id id_document selfie_video) = ''completed'')"
  by (auto simp: process_verification_def failed_result_def aggregate_results_def Let_def
      split: prod.splits)

lemma example_save:
  "save_uploaded_files example_ext ''s1'' \<lparr>filename = ''doc.png''\<rparr> \<lparr>filename = ''clip6''\<rparr>
     = Inr (''uploads/verifications/s1/id_doc.png'', ''uploads/verifications/s1/selfie_clip6'')"
  by (simp add: save_uploaded_files_def example_ext_def)

theorem process_verification_fault_witness:
  "process_verification full_disk_ext default_settings ''s1''
       \<lparr>filename = ''doc.png''\<rparr> \<lparr>filename = ''clip6''\<rparr>
     = \<lparr>status = ''failed'', decision = ''rejected'', decision_reason = None,
        verification_result.document_valid = None, verification_result.face_match_score = None,
        verification_result.liveness_score = None, processing_time = None,
        verification_result.error = Some ''[Errno 28] No space left on device''\<rparr> \<and>
   status (process_verification example_ext default_settings ''s1''
       \<lparr>filename = ''doc.png''\<rparr> \<lparr>filename = ''clip6''\<rparr>) = ''completed''"
proof -
  have f: "save_uploaded_files full_disk_ext ''s1'' \<lparr>filename = ''doc.png''\<rparr> \<lparr>filename = ''clip6''\<rparr>
     = Inl (LibraryError ''[Errno 28] No space left on device'')"
    by (simp add: save_uploaded_files_def full_disk_ext_def example_ext_def)
  have "process_verification full_disk_ext default_settings ''s1''
       \<lparr>filename = ''doc.png''\<rparr> \<lparr>filename = ''clip6''\<rparr>
     = failed_result ''[Errno 28] No space left on device''"
    using process_verification_fault [of full_disk_ext "''s1''" "\<lparr>filename = ''doc.png''\<rparr>"
        "\<lparr>filename = ''clip6''\<rparr>" default_settings] f
    by simp
  moreover have "status (process_verification example_ext default_settings ''s1''
       \<lparr>filename = ''doc.png''\<rparr> \<lparr>filename = ''clip6''\<rparr>) = ''completed''"
    using process_verification_fault [of example_ext "''s1''" "\<lparr>filename = ''doc.png''\<rparr>"
        "\<lparr>filename = ''clip6''\<rparr>" default_settings] example_save
    by simp
  ultimately show ?thesis by (simp add: failed_result_def)
qed

text \<open>
  C4 as stated gives the result a reason of the form \<open>processing_error: <detail>\<close>; the
  failed dictionary has no reason, and its error text carries no such prefix.
\<close>

theorem processing_error_prefix_counterexample:
  "decision_reason (process_verification full_disk_ext default_settings ''s1''
       \<lparr>filename = ''doc.png''\<rparr> \<lparr>filename = ''clip6''\<rparr>) = None \<and>
   verification_result.error (process_verification full_disk_ext default_settings ''s1''
       \<lparr>filename = ''doc.png''\<rparr> \<lparr>filename = ''clip6''\<rparr>)
     = Some ''[Errno 28] No space left on device'' \<and>
   take 18 ''[Errno 28] No space left on device'' \<noteq> ''processing_error: ''"
  by (simp add: process_verification_def save_uploaded_files_def full_disk_ext_def example_ext_def)

section \<open>Validation of parsed fields\<close>

lemma passport_line_no_id:
  "data ''id_number'' = None \<Longrightarrow> passport_line ext raw_line data ''id_number'' = None"
  by (simp add: passport_line_def Let_def split: option.splits)

lemma fold_passport_line_no_id:
  "data ''id_number'' = None \<Longrightarrow> fold (passport_line ext) lines data ''id_number'' = None"
  by (induction lines arbitrary: data) (simp_all add: passport_line_no_id)

lemma parse_passport_data_no_id: "parse_passport_data ext text ''id_number'' = None"
  by (simp add: parse_passport_data_def Let_def fold_passport_line_no_id
      split: option.splits prod.splits)

lemma id_card_line_no_passport:
  "data ''passport_number'' = None \<Longrightarrow> id_card_line ext raw_line data ''passport_number'' = None"
  by (simp add: id_card_line_def Let_def split: option.splits)

lemma fold_id_card_line_no_passport:
  "data ''passport_number'' = None \<Longrightarrow>
   fold (id_card_line ext) lines data ''passport_number'' = None"
  by (induction lines arbitrary: data) (simp_all add: id_card_line_no_passport)

lemma parse_id_card_data_no_passport: "parse_id_card_data ext text ''passport_number'' = None"
  by (simp add: parse_id_card_data_def fold_id_card_line_no_passport)

lemma field_present_iff: "field_present data f \<longleftrightarrow> (\<exists>v. data f = Some v \<and> v \<noteq> [])"
  by (simp add: field_present_def split: option.splits)

lemma required_fields_spec:
  assumes "recognized doc_type"
  shows "set (required_fields_of doc_type) = spec_required_fields doc_type"
    and "distinct (required_fields_of doc_type)"
  using assms
  by (auto simp: recognized_def required_fields_of_def spec_required_fields_def)

lemma fraction_present_filter:
  assumes "recognized doc_type"
  shows "fraction_present data doc_type
           = real (length (filter (field_present data) (required_fields_of doc_type)))
             / real (length (required_fields_of doc_type))"
proof -
  note s = required_fields_spec(1) [OF assms] and d = required_fields_spec(2) [OF assms]
  have "{f \<in> spec_required_fields doc_type. \<exists>v. data f = Some v \<and> v \<noteq> []}
          = {f. field_present data f} \<inter> set (required_fields_of doc_type)"
    unfolding s [symmetric] field_present_iff by blast
  then have "card {f \<in> spec_required_fields doc_type. \<exists>v. data f = Some v \<and> v \<noteq> []}
          = length (filter (field_present data) (required_fields_of doc_type))"
    using distinct_length_filter [OF d, of "field_present data"] by simp
  moreover have "card (spec_required_fields doc_type) = length (required_fields_of doc_type)"
    unfolding s [symmetric] using d by (rule distinct_card)
  ultimately show ?thesis by (simp only: fraction_present_def)
qed

lemma validate_spec_confidence:
  assumes r: "recognized doc_type"
    and p: "doc_type = ''passport'' \<Longrightarrow> data ''id_number'' = None"
    and i: "doc_type \<noteq> ''passport'' \<Longrightarrow> data ''passport_number'' = None"
  shows "snd (validate_document_data ext data doc_type) = spec_confidence ext data doc_type"
proof (cases "doc_type = ''passport''")
  case True
  with p have "data ''id_number'' = None" by simp
  with True show ?thesis
    unfolding spec_confidence_def fraction_present_filter [OF r]
    by (simp add: validate_document_data_def primary_format_score_def required_fields_of_def
        Let_def split: option.splits)
next
  case False
  with i have n: "data ''passport_number'' = None" by simp
  from False r have "doc_type = ''national_id'' \<or> doc_type = ''drivers_license''"
    by (simp add: recognized_def)
  with n show ?thesis
    unfolding spec_confidence_def fraction_present_filter [OF r]
    by (auto simp: validate_document_data_def primary_format_score_def required_fields_of_def
        Let_def split: option.splits)
qed

lemma parse_document_data_identifiers:
  "doc_type = ''passport'' \<Longrightarrow> parse_document_data ext text doc_type ''id_number'' = None"
  "recognized doc_type \<Longrightarrow> doc_type \<noteq> ''passport'' \<Longrightarrow>
     parse_document_data ext text doc_type ''passport_number'' = None"
  by (auto simp: parse_document_data_def parse_passport_data_no_id
      parse_id_card_data_no_passport recognized_def)

lemma validate_threshold:
  "fst (validate_document_data ext data doc_type)
     \<longleftrightarrow> snd (validate_document_data ext data doc_type) \<ge> 0.5"
  by (simp only: validate_document_data_def Let_def fst_conv snd_conv)

text \<open>
  C8. For every field map that the parser returns for a recognized document type (for
  every text and every behaviour of the regular expressions), the confidence is
  0.7 times the fraction of the required fields of the type that are present and not
  empty, plus 0.3 times the score of the format check of the primary identifier, and the
  document is valid exactly when this confidence is at least 0.5.
\<close>

theorem validate_parsed_document:
  assumes "recognized doc_type"
  shows "validate_document_data ext (parse_document_data ext text doc_type) doc_type
           = (spec_confidence ext (parse_document_data ext text doc_type) doc_type \<ge> 0.5,
              spec_confidence ext (parse_document_data ext text doc_type) doc_type)"
proof -
  let ?data = "parse_document_data ext text doc_type"
  have "snd (validate_document_data ext ?data doc_type) = spec_confidence ext ?data doc_type"
    using assms by (intro validate_spec_confidence parse_document_data_identifiers)
  moreover have "fst (validate_document_data ext ?data doc_type)
      \<longleftrightarrow> snd (validate_document_data ext ?data doc_type) \<ge> 0.5"
    by (rule validate_threshold)
  ultimately show ?thesis
    by (cases "validate_document_data ext ?data doc_type") simp
qed

lemma example_parsed:
  "map (parse_document_data example_ext (extract_text_with_ocr (10::nat, 16::nat)) ''passport'')
     [''passport_number'', ''full_name'', ''date_of_birth'', ''id_number'']
   = [Some ''P12345678'', Some ''JOHN MICHAEL DOE'', Some ''15 JAN 1990'', None]"
  by code_simp

lemma example_validated:
  "validate_document_data example_ext
     (parse_document_data example_ext (extract_text_with_ocr (10::nat, 16::nat)) ''passport'')
     ''passport'' = (True, 79 / 100)"
proof -
  have m: "re_match example_ext PASSPORT_FORMAT ''P12345678''"
    by (simp add: example_ext_def)
  show ?thesis
    using example_parsed m
    by (simp add: validate_document_data_def required_fields_of_def field_present_def Let_def)
qed

lemma example_parsed_partial:
  "map (parse_document_data example_ext
          partial_passport_text ''passport'')
     [''passport_number'', ''full_name'', ''date_of_birth'', ''id_number'']
   = [Some ''P12345678'', None, Some ''15 JAN 1990'', None]"
  by code_simp

lemma example_spec_partial:
  "fraction_present (parse_document_data example_ext
      partial_passport_text ''passport'')
     ''passport'' = 2 / 3"
  "primary_format_score example_ext (parse_document_data example_ext
      partial_passport_text ''passport'')
     ''passport'' = 3 / 10"
proof -
  let ?data = "parse_document_data example_ext
      partial_passport_text ''passport''"
  have p: "?data ''passport_number'' = Some ''P12345678''" "?data ''full_name'' = None"
    "?data ''date_of_birth'' = Some ''15 JAN 1990''"
    using example_parsed_partial by simp_all
  have "{f \<in> spec_required_fields ''passport''. \<exists>v. ?data f = Some v \<and> v \<noteq> []}
          = {''passport_number'', ''date_of_birth''}"
    using p by (auto simp: spec_required_fields_def)
  then show "fraction_present ?data ''passport'' = 2 / 3"
    by (simp add: fraction_present_def spec_required_fields_def)
  show "primary_format_score example_ext ?data ''passport'' = 3 / 10"
    using p by (simp add: primary_format_score_def example_ext_def)
qed

theorem validate_parsed_document_witness:
  "recognized ''passport'' \<and>
   validate_document_data example_ext
     (parse_document_data example_ext (extract_text_with_ocr (10::nat, 16::nat)) ''passport'')
     ''passport'' = (True, 79 / 100) \<and>
   spec_confidence example_ext
     (parse_document_data example_ext (extract_text_with_ocr (10::nat, 16::nat)) ''passport'')
     ''passport'' = 79 / 100 \<and>
   fraction_present (parse_document_data example_ext partial_passport_text ''passport'')
     ''passport'' = 2 / 3 \<and>
   validate_document_data example_ext
     (parse_document_data example_ext partial_passport_text ''passport'') ''passport''
     = (True, 167 / 300)"
proof -
  have r: "recognized ''passport''" by (simp add: recognized_def)
  from validate_parsed_document [OF r, of example_ext "extract_text_with_ocr (10::nat, 16::nat)"]
  have "spec_confidence example_ext
     (parse_document_data example_ext (extract_text_with_ocr (10::nat, 16::nat)) ''passport'')
     ''passport'' = 79 / 100"
    by (simp only: example_validated prod.inject)
  moreover have "validate_document_data example_ext
     (parse_document_data example_ext partial_passport_text ''passport'') ''passport''
     = (True, 167 / 300)"
    using validate_parsed_document [OF r, of example_ext partial_passport_text]
    by (simp add: spec_confidence_def example_spec_partial)
  ultimately show ?thesis
    using r example_validated example_spec_partial(1) by (intro conjI)
qed

end
